theory Spec2Isabelle
  imports Complex_Main "HOL-Library.Sublist"
begin

section \<open>JavaScript strings and arrays\<close>

text \<open>
  A JavaScript string is modelled as a \<^typ>\<open>string\<close>, one \<^typ>\<open>char\<close> per code unit,
  for text whose code units are below 256 (ASCII and Latin-1, which has the accented
  letters of Spanish). On these code units \<open>trim\<close> strips what the platform strips:
  tab, line feed, vertical tab, form feed, carriage return, space and the no-break space
  \<open>0xA0\<close>; and \<open>toLowerCase\<close> folds what the platform folds: \<open>A\<close>..\<open>Z\<close> and the
  accented capitals \<open>0xC0\<close>..\<open>0xDE\<close> but the multiplication sign \<open>0xD7\<close>, each to the
  code unit 32 above it. Code units from 256 on are outside the model.
\<close>

definition isSpace :: "char \<Rightarrow> bool" where
  "isSpace c =
     (c \<in> set [CHR '' '', CHR 0x09, CHR 0x0A, CHR 0x0B, CHR 0x0C, CHR 0x0D, CHR 0xA0])"

text \<open>\<^verbatim>\<open>s.trim()\<close>\<close>

definition trim :: "string \<Rightarrow> string" where
  "trim s = rev (dropWhile isSpace (rev (dropWhile isSpace s)))"

definition lowerChar :: "char \<Rightarrow> char" where
  "lowerChar c =
     (case map_of
        (zip (''ABCDEFGHIJKLMNOPQRSTUVWXYZ'' @
           [CHR 0xC0, CHR 0xC1, CHR 0xC2, CHR 0xC3, CHR 0xC4, CHR 0xC5, CHR 0xC6, CHR 0xC7,
            CHR 0xC8, CHR 0xC9, CHR 0xCA, CHR 0xCB, CHR 0xCC, CHR 0xCD, CHR 0xCE, CHR 0xCF,
            CHR 0xD0, CHR 0xD1, CHR 0xD2, CHR 0xD3, CHR 0xD4, CHR 0xD5, CHR 0xD6, CHR 0xD8,
            CHR 0xD9, CHR 0xDA, CHR 0xDB, CHR 0xDC, CHR 0xDD, CHR 0xDE])
          (''abcdefghijklmnopqrstuvwxyz'' @
           [CHR 0xE0, CHR 0xE1, CHR 0xE2, CHR 0xE3, CHR 0xE4, CHR 0xE5, CHR 0xE6, CHR 0xE7,
            CHR 0xE8, CHR 0xE9, CHR 0xEA, CHR 0xEB, CHR 0xEC, CHR 0xED, CHR 0xEE, CHR 0xEF,
            CHR 0xF0, CHR 0xF1, CHR 0xF2, CHR 0xF3, CHR 0xF4, CHR 0xF5, CHR 0xF6, CHR 0xF8,
            CHR 0xF9, CHR 0xFA, CHR 0xFB, CHR 0xFC, CHR 0xFD, CHR 0xFE])) c of
        Some l \<Rightarrow> l
      | None \<Rightarrow> c)"

text \<open>\<^verbatim>\<open>s.toLowerCase()\<close>\<close>

definition toLowerCase :: "string \<Rightarrow> string" where
  "toLowerCase s = map lowerChar s"

text \<open>\<^verbatim>\<open>s.includes(t)\<close> on strings: \<open>t\<close> occurs in \<open>s\<close> as a contiguous run.\<close>

fun includes_str :: "string \<Rightarrow> string \<Rightarrow> bool" where
  "includes_str [] t = (t = [])"
| "includes_str (c # s) t = (prefix t (c # s) \<or> includes_str s t)"

text \<open>
  \<^verbatim>\<open>xs.findIndex(P)\<close>: the index of the first element that satisfies \<open>P\<close>, and \<open>-1\<close>
  when there is none.
\<close>

fun findIndex_from :: "nat \<Rightarrow> ('a \<Rightarrow> bool) \<Rightarrow> 'a list \<Rightarrow> int" where
  "findIndex_from i P [] = - 1"
| "findIndex_from i P (x # xs) = (if P x then int i else findIndex_from (Suc i) P xs)"

definition findIndex :: "('a \<Rightarrow> bool) \<Rightarrow> 'a list \<Rightarrow> int" where
  "findIndex P xs = findIndex_from 0 P xs"

text \<open>
  \<^verbatim>\<open>xs.filter((item, index, self) => f(item, index, self))\<close>: the callback sees the
  element, its index and the whole array.
\<close>

definition filter_indexed :: "('a \<Rightarrow> nat \<Rightarrow> 'a list \<Rightarrow> bool) \<Rightarrow> 'a list \<Rightarrow> 'a list" where
  "filter_indexed f xs = map snd (filter (\<lambda>(index, item). f item index xs) (enumerate 0 xs))"

text \<open>
  \<^verbatim>\<open>xs.sort(cmp)\<close>. The sort of ECMAScript is stable, and for a comparator that is
  consistent (as the price comparators below are) the result is determined: it is the
  one a stable insertion sort computes. An element goes before the first element it
  does not compare greater than.
\<close>

fun insert_sorted :: "('a \<Rightarrow> 'a \<Rightarrow> rat) \<Rightarrow> 'a \<Rightarrow> 'a list \<Rightarrow> 'a list" where
  "insert_sorted cmp x [] = [x]"
| "insert_sorted cmp x (y # ys) =
     (if cmp x y \<le> 0 then x # y # ys else y # insert_sorted cmp x ys)"

definition sort_js :: "('a \<Rightarrow> 'a \<Rightarrow> rat) \<Rightarrow> 'a list \<Rightarrow> 'a list" where
  "sort_js cmp xs = foldr (insert_sorted cmp) xs []"

section \<open>Data model (src/screens/HomeScreen.tsx)\<close>

text \<open>
  \<^verbatim>\<open>type Price = { store; product_name; brand; price; url; promo_text? }\<close>.
  Prices are numbers; they are modelled as exact rationals.
\<close>

record Price =
  store :: string
  product_name :: string
  brand :: string
  price :: rat
  url :: string
  promo_text :: "string option"

text \<open>\<^verbatim>\<open>type CartItem = Price & { quantity: number }\<close>\<close>

record CartItem = Price +
  quantity :: nat

section \<open>Deduplication of the raw results (pollSearch)\<close>

text \<open>
  \<^verbatim>\<open>
  const uniqueResults = rawResults.filter((item, index, self) =>
    index === self.findIndex((t) => t.url === item.url));
  \<close>
\<close>

definition uniqueResults :: "Price list \<Rightarrow> Price list" where
  "uniqueResults rawResults =
     filter_indexed (\<lambda>item index self. int index = findIndex (\<lambda>t. url t = url item) self)
       rawResults"

text \<open>
  The specification's words, as a second definition to compare with: deduplicate by
  url, keeping the first occurrence, in the original order. \<open>seen\<close> holds the urls
  already kept.
\<close>

fun dedupe_spec :: "string list \<Rightarrow> Price list \<Rightarrow> Price list" where
  "dedupe_spec seen [] = []"
| "dedupe_spec seen (p # ps) =
     (if url p \<in> set seen then dedupe_spec seen ps else p # dedupe_spec (url p # seen) ps)"

section \<open>Search client (src/api/client.ts)\<close>

text \<open>
  \<^verbatim>\<open>
  export async function searchProduct(query, userCity, userProvince) {
    const res = await fetch(url);
    if (!res.ok) { throw new Error("Search failed"); }
    if (res.status === 429) { throw new Error("Rate limit exceeded. Try again later."); }
    return res.json();
  }
  \<close>
  The body of a reply is the job status object: \<open>status\<close>, and the optional \<open>message\<close>
  and \<open>results\<close>. The interface \<open>SearchResponse\<close> of the screen is not applied to the
  reply, so \<open>status\<close> is whatever string the server sent.
\<close>

record SearchResponse =
  status :: string
  message :: "string option"
  results :: "Price list option"

text \<open>
  The reply \<open>res\<close> of \<open>fetch\<close>: the HTTP status code \<open>res.status\<close>, and what
  \<open>res.json()\<close> gives: the parsed body, or (\<open>Inl\<close>) the message of the error it
  rejects with.
\<close>

record Response =
  http_status :: nat
  json :: "string + SearchResponse"

text \<open>
  Modelled from the spec: \<open>res.ok\<close> is a property of the platform's \<open>Response\<close>, not
  of this repository; a reply is successful when its status is 2xx ("Non-2xx \<rightarrow>
  failure").
\<close>

definition ok :: "Response \<Rightarrow> bool" where
  "ok res = (200 \<le> http_status res \<and> http_status res \<le> 299)"

text \<open>
  What \<open>await fetch(url)\<close> does for one request: it rejects with an error (\<open>Inl\<close> its
  message: no connection) or resolves with a reply. A thrown error is modelled by its
  \<open>message\<close>.
\<close>

type_synonym fetch_result = "string + Response"

text \<open>
  The client on one request, given what the network does for it. The url, built from
  the three arguments, only selects that answer.
\<close>

definition searchProduct :: "fetch_result \<Rightarrow> string \<Rightarrow> string \<Rightarrow> string \<Rightarrow> string + SearchResponse" where
  "searchProduct answer query' userCity userProvince =
     (case answer of
        Inl err \<Rightarrow> Inl err
      | Inr res \<Rightarrow>
          if \<not> ok res then Inl ''Search failed''
          else if http_status res = 429 then Inl ''Rate limit exceeded. Try again later.''
          else json res)"

section \<open>The screen's state (src/screens/HomeScreen.tsx)\<close>

record Location =
  city :: string
  province :: string

text \<open>\<^verbatim>\<open>interface SavedList { id; name; items; total; date }\<close>\<close>

record SavedList =
  id' :: string
  name :: string
  items :: "CartItem list"
  total :: rat
  date :: string

text \<open>
  The on-device key-value store, as the screen uses it: the document under
  \<open>@search_history\<close> and the one under \<open>@my_lists\<close> (\<open>None\<close>: the key is absent), each
  written and read whole through \<open>JSON.stringify\<close> and \<open>JSON.parse\<close>. \<open>calls\<close> logs
  every call made. A call may reject: \<open>getItem_rejects\<close> and \<open>setItem_rejects\<close> say
  whether the next ones do; a rejected write leaves the document as it was.
\<close>

record AsyncStorage =
  search_history_doc :: "string list option"
  my_lists_doc :: "SavedList list option"
  calls :: "string list"
  getItem_rejects :: bool
  setItem_rejects :: bool

definition getItem_my_lists :: "AsyncStorage \<Rightarrow> AsyncStorage \<times> SavedList list option option" where
  "getItem_my_lists st =
     (let st' = st\<lparr>calls := calls st @ [''getItem @my_lists'']\<rparr>
      in if getItem_rejects st then (st', None) else (st', Some (my_lists_doc st)))"

definition setItem_my_lists :: "SavedList list \<Rightarrow> AsyncStorage \<Rightarrow> AsyncStorage \<times> bool" where
  "setItem_my_lists v st =
     (let st' = st\<lparr>calls := calls st @ [''setItem @my_lists'']\<rparr>
      in if setItem_rejects st then (st', False) else (st'\<lparr>my_lists_doc := Some v\<rparr>, True))"

definition setItem_search_history :: "string list \<Rightarrow> AsyncStorage \<Rightarrow> AsyncStorage \<times> bool" where
  "setItem_search_history v st =
     (let st' = st\<lparr>calls := calls st @ [''setItem @search_history'']\<rparr>
      in if setItem_rejects st then (st', False) else (st'\<lparr>search_history_doc := Some v\<rparr>, True))"

text \<open>
  The state cells of \<open>HomeScreen\<close> (\<open>useState\<close>), and its environment: the store and the
  alerts shown so far (\<open>Alert.alert(title, message)\<close>).
\<close>

record screen =
  query :: string
  data :: "Price list"
  loading :: bool
  error :: "string option"
  hasSearched :: bool
  statusMessage :: "string option"
  cart :: "CartItem list"
  isListModalOpen :: bool
  listName :: string
  selectedBrands :: "string list"
  selectedStores :: "string list"
  selectedItems :: "string list"
  sortAsc :: bool
  location :: "Location option"
  searchHistory :: "string list"
  storage :: AsyncStorage
  alerts :: "(string \<times> string) list"

text \<open>The screen as it is mounted, on an empty store.\<close>

definition initial_screen :: screen where
  "initial_screen =
     \<lparr>query = [], data = [], loading = False, error = None, hasSearched = False,
      statusMessage = None, cart = [], isListModalOpen = False, listName = [],
      selectedBrands = [], selectedStores = [], selectedItems = [], sortAsc = True,
      location = None, searchHistory = [],
      storage = \<lparr>search_history_doc = None, my_lists_doc = None, calls = [],
                 getItem_rejects = False, setItem_rejects = False\<rparr>,
      alerts = []\<rparr>"

section \<open>Search history\<close>

definition MAX_HISTORY :: nat where
  "MAX_HISTORY = 20"

text \<open>
  \<^verbatim>\<open>
  const saveToHistory = async (term) => {
    const trimmedTerm = term.trim();
    if (!trimmedTerm) return;
    const filtered = searchHistory.filter(h => h.toLowerCase() !== trimmedTerm.toLowerCase());
    const newHistory = [trimmedTerm, ...filtered].slice(0, MAX_HISTORY);
    setSearchHistory(newHistory);
    await AsyncStorage.setItem('@search_history', JSON.stringify(newHistory));
  };
  \<close>
  A rejected write is not caught: the state cell is already set.
\<close>

definition saveToHistory :: "string \<Rightarrow> screen \<Rightarrow> screen" where
  "saveToHistory trm s =
     (let trimmedTerm = trim trm in
      if trimmedTerm = [] then s
      else
        let filtered' = filter (\<lambda>h. toLowerCase h \<noteq> toLowerCase trimmedTerm) (searchHistory s);
            newHistory = take MAX_HISTORY (trimmedTerm # filtered')
        in s\<lparr>searchHistory := newHistory,
             storage := fst (setItem_search_history newHistory (storage s))\<rparr>)"

section \<open>Cart\<close>

text \<open>
  \<^verbatim>\<open>
  const addToCart = (product) => {
    setCart(prev => {
      const existing = prev.find(i => i.url === product.url);
      if (existing) {
        return prev.map(i => i.url === product.url ? { ...i, quantity: i.quantity + 1 } : i);
      }
      return [...prev, { ...product, quantity: 1 }];
    });
  };
  \<close>
\<close>

text \<open>The spread \<^verbatim>\<open>{ ...product, quantity: q }\<close>.\<close>

definition with_quantity :: "Price \<Rightarrow> nat \<Rightarrow> CartItem" where
  "with_quantity product q =
     \<lparr>store = store product, product_name = product_name product, brand = brand product,
      price = price product, url = url product, promo_text = promo_text product,
      quantity = q\<rparr>"

definition addToCart :: "Price \<Rightarrow> screen \<Rightarrow> screen" where
  "addToCart product s =
     s\<lparr>cart :=
        (let prev = cart s in
         case find (\<lambda>i. url i = url product) prev of
           Some existing \<Rightarrow>
             map (\<lambda>i. if url i = url product then i\<lparr>quantity := quantity i + 1\<rparr> else i) prev
         | None \<Rightarrow> prev @ [with_quantity product 1])\<rparr>"

text \<open>\<^verbatim>\<open>setCart(prev => prev.filter(i => i.url !== url))\<close>\<close>

definition removeFromCart :: "string \<Rightarrow> screen \<Rightarrow> screen" where
  "removeFromCart u s = s\<lparr>cart := filter (\<lambda>i. url i \<noteq> u) (cart s)\<rparr>"

text \<open>\<^verbatim>\<open>cart.reduce((sum, item) => sum + (item.price * item.quantity), 0)\<close>\<close>

definition totalCartPrice :: "screen \<Rightarrow> rat" where
  "totalCartPrice s = foldl (\<lambda>sum item. sum + price item * of_nat (quantity item)) 0 (cart s)"

section \<open>Saved lists\<close>

text \<open>
  \<^verbatim>\<open>
  const saveListToDevice = async () => {
    if (!listName.trim()) return Alert.alert("Error", "Ponle un nombre a tu lista");
    try {
      const existingData = await AsyncStorage.getItem('@my_lists');
      const prevLists = existingData ? JSON.parse(existingData) : [];
      const newList = { id: Date.now().toString(), name: listName, items: cart,
                        total: totalCartPrice, date: new Date().toLocaleDateString() };
      await AsyncStorage.setItem('@my_lists', JSON.stringify([newList, ...prevLists]));
      Alert.alert("Exito", "Lista guardada");
      setCart([]); setListName(""); setIsListModalOpen(false);
    } catch (e) { Alert.alert("Error", "Error al guardar"); }
  };
  \<close>
  \<open>now\<close> is \<open>Date.now().toString()\<close> and \<open>today\<close> is
  \<open>new Date().toLocaleDateString()\<close> at the call. The title of the success alert starts
  with the code unit \<open>0xC9\<close> (E acute).
\<close>

definition saveListToDevice :: "string \<Rightarrow> string \<Rightarrow> screen \<Rightarrow> screen" where
  "saveListToDevice now today s =
     (if trim (listName s) = [] then
        s\<lparr>alerts := alerts s @ [(''Error'', ''Ponle un nombre a tu lista'')]\<rparr>
      else
        case getItem_my_lists (storage s) of
          (st1, None) \<Rightarrow>
            s\<lparr>storage := st1, alerts := alerts s @ [(''Error'', ''Error al guardar'')]\<rparr>
        | (st1, Some existingData) \<Rightarrow>
            let prevLists = (case existingData of Some saved \<Rightarrow> saved | None \<Rightarrow> []);
                newList = \<lparr>id' = now, name = listName s, items = cart s,
                           total = totalCartPrice s, date = today\<rparr>
            in (case setItem_my_lists (newList # prevLists) st1 of
                  (st2, False) \<Rightarrow>
                    s\<lparr>storage := st2, alerts := alerts s @ [(''Error'', ''Error al guardar'')]\<rparr>
                | (st2, True) \<Rightarrow>
                    s\<lparr>storage := st2,
                      alerts := alerts s @ [(CHR 0xC9 # ''xito'', ''Lista guardada'')],
                      cart := [], listName := [], isListModalOpen := False\<rparr>))"

section \<open>Polling\<close>

text \<open>
  A pending \<open>setTimeout(() => pollSearch(searchQuery, userCity, userProvince), delay)\<close>:
  the delay in milliseconds and the three arguments.
\<close>

type_synonym retry = "nat \<times> string \<times> string \<times> string"

text \<open>
  \<^verbatim>\<open>
  async function pollSearch(searchQuery, userCity, userProvince) {
    try {
      const response = await searchProduct(searchQuery, userCity, userProvince);
      if (response.status === "COMPLETED") {
        const rawResults = response.results || [];
        const uniqueResults = ...;
        setData(uniqueResults); setLoading(false); setStatusMessage(null);
      }
      else if (response.status === "STARTED" || response.status === "PROCESSING") {
        setStatusMessage(response.message || "Buscando mejores precios...");
        setTimeout(() => pollSearch(searchQuery, userCity, userProvince), 4000);
      }
    } catch (err) {
      // If we hit a rate limit, don't show a red error, just wait longer
      if (err.message?.includes("Too many requests")) {
        setStatusMessage("Servidor ocupado, reintentando en breve...");
        setTimeout(() => pollSearch(searchQuery, userCity, userProvince), 10000);
      } else {
        setError(err.message || "Error de conexion");
        setLoading(false);
      }
    }
  }
  \<close>
  One attempt, given what the network does for its request: the new state, and the
  retry it schedules if any. The default error message has the code unit \<open>0xF3\<close>
  (o acute) in \<open>conexion\<close>.
\<close>

definition pollSearch :: "fetch_result \<Rightarrow> string \<Rightarrow> string \<Rightarrow> string \<Rightarrow> screen \<Rightarrow> screen \<times> retry option" where
  "pollSearch answer searchQuery userCity userProvince s =
     (case searchProduct answer searchQuery userCity userProvince of
        Inr response \<Rightarrow>
          if status response = ''COMPLETED'' then
            let rawResults = (case results response of Some rs \<Rightarrow> rs | None \<Rightarrow> [])
            in (s\<lparr>data := uniqueResults rawResults, loading := False, statusMessage := None\<rparr>,
                None)
          else if status response = ''STARTED'' \<or> status response = ''PROCESSING'' then
            (s\<lparr>statusMessage :=
                 Some (case message response of
                         Some m \<Rightarrow> if m = [] then ''Buscando mejores precios...'' else m
                       | None \<Rightarrow> ''Buscando mejores precios...'')\<rparr>,
             Some (4000, searchQuery, userCity, userProvince))
          else (s, None)
      | Inl err \<Rightarrow>
          if includes_str err ''Too many requests'' then
            (s\<lparr>statusMessage := Some ''Servidor ocupado, reintentando en breve...''\<rparr>,
             Some (10000, searchQuery, userCity, userProvince))
          else
            (s\<lparr>error := Some (if err = [] then ''Error de conexi'' @ [CHR 0xF3] @ ''n'' else err),
               loading := False\<rparr>,
             None))"

text \<open>
  The timers of a poll chain, fired in turn: each pending retry calls \<open>pollSearch\<close>
  again, on the network's next answer. The chain ends when an attempt schedules no
  retry; when the answers run out, the retry still pending is returned.
\<close>

fun run_timers :: "fetch_result list \<Rightarrow> retry option \<Rightarrow> screen \<Rightarrow> screen \<times> retry option" where
  "run_timers [] pending s = (s, pending)"
| "run_timers (a # as) None s = (s, None)"
| "run_timers (a # as) (Some (delay, q, c, p)) s =
     (case pollSearch a q c p s of (s', pending') \<Rightarrow> run_timers as pending' s')"

text \<open>
  \<^verbatim>\<open>
  async function handleSearchWithTerm(overrideTerm) {
    const searchTerm = overrideTerm || query;
    if (searchTerm.length < 2) return;
    saveToHistory(searchTerm);
    const city = location?.city || "MAR_DEL_PLATA";
    const province = location?.province || "BUENOS_AIRES";
    setLoading(true); setError(null); setStatusMessage(`Buscando en ${city}...`); setData([]);
    await pollSearch(searchTerm, city, province);
    setHasSearched(true);
  }
  \<close>
  \<open>answer\<close> is the network's answer to the first request, \<open>later\<close> its answers to the
  retries.
\<close>

definition handleSearchWithTerm :: "string option \<Rightarrow> fetch_result \<Rightarrow> fetch_result list \<Rightarrow> screen \<Rightarrow> screen \<times> retry option" where
  "handleSearchWithTerm overrideTerm answer later s =
     (let searchTerm = (case overrideTerm of
                          Some t \<Rightarrow> if t = [] then query s else t
                        | None \<Rightarrow> query s)
      in if length searchTerm < 2 then (s, None)
         else
           let s1 = saveToHistory searchTerm s;
               city' = (case location s of
                          Some l \<Rightarrow> if city l = [] then ''MAR_DEL_PLATA'' else city l
                        | None \<Rightarrow> ''MAR_DEL_PLATA'');
               province' = (case location s of
                              Some l \<Rightarrow> if province l = [] then ''BUENOS_AIRES'' else province l
                            | None \<Rightarrow> ''BUENOS_AIRES'');
               s2 = s1\<lparr>loading := True, error := None,
                       statusMessage := Some (''Buscando en '' @ city' @ ''...''), data := []\<rparr>
           in case pollSearch answer searchTerm city' province' s2 of
                (s3, pending) \<Rightarrow> run_timers later pending (s3\<lparr>hasSearched := True\<rparr>))"

text \<open>
  The earlier variant of the poller, kept in the repository beside the client
  (src/api/client.ts, the screen before locations and deduplication):
  \<^verbatim>\<open>
  async function pollSearch(searchQuery) {
    try {
      const response = await searchProduct(searchQuery);
      if (response.status === "COMPLETED") {
        setData(response.results || []); setLoading(false); setStatusMessage(null);
      }
      else if (response.status === "STARTED" || response.status === "PROCESSING") {
        setStatusMessage(response.message || "Buscando mejores precios...");
        setTimeout(() => pollSearch(searchQuery), 3000);
      }
      else if (response.status === "EMPTY") {
        setData([]); setLoading(false);
      }
    } catch (err) {
      setError(err.message || "Error de conexion"); setLoading(false);
    }
  }
  \<close>
  Its client makes the same two checks on the reply as \<open>searchProduct\<close>.
\<close>

definition pollSearch_earlier :: "fetch_result \<Rightarrow> string \<Rightarrow> screen \<Rightarrow> screen \<times> (nat \<times> string) option" where
  "pollSearch_earlier answer searchQuery s =
     (case searchProduct answer searchQuery [] [] of
        Inr response \<Rightarrow>
          if status response = ''COMPLETED'' then
            (s\<lparr>data := (case results response of Some rs \<Rightarrow> rs | None \<Rightarrow> []),
               loading := False, statusMessage := None\<rparr>,
             None)
          else if status response = ''STARTED'' \<or> status response = ''PROCESSING'' then
            (s\<lparr>statusMessage :=
                 Some (case message response of
                         Some m \<Rightarrow> if m = [] then ''Buscando mejores precios...'' else m
                       | None \<Rightarrow> ''Buscando mejores precios...'')\<rparr>,
             Some (3000, searchQuery))
          else if status response = ''EMPTY'' then
            (s\<lparr>data := [], loading := False\<rparr>, None)
          else (s, None)
      | Inl err \<Rightarrow>
          (s\<lparr>error := Some (if err = [] then ''Error de conexi'' @ [CHR 0xF3] @ ''n'' else err),
             loading := False\<rparr>,
           None))"

section \<open>Derived data: filters, sorting, cheapest price\<close>

text \<open>
  \<^verbatim>\<open>
  const filtered = useMemo(() => {
    let result = data.filter(p => {
      const brandOk = selectedBrands.length === 0 || selectedBrands.includes(p.brand);
      const storeOk = selectedStores.length === 0 || selectedStores.includes(p.store);
      const itemOk = selectedItems.length === 0 ||
        selectedItems.some(i => p.product_name.toLowerCase().includes(i.toLowerCase()));
      return brandOk && storeOk && itemOk;
    });
    result.sort((a, b) => sortAsc ? a.price - b.price : b.price - a.price);
    return result;
  }, [data, selectedBrands, selectedStores, selectedItems, sortAsc]);
  \<close>
\<close>

definition filtered :: "screen \<Rightarrow> Price list" where
  "filtered s =
     (let result =
        filter (\<lambda>p.
          let brandOk = (length (selectedBrands s) = 0 \<or> brand p \<in> set (selectedBrands s));
              storeOk = (length (selectedStores s) = 0 \<or> store p \<in> set (selectedStores s));
              itemOk = (length (selectedItems s) = 0 \<or>
                list_ex (\<lambda>i. includes_str (toLowerCase (product_name p)) (toLowerCase i))
                  (selectedItems s))
          in brandOk \<and> storeOk \<and> itemOk) (data s)
      in sort_js (\<lambda>a b. if sortAsc s then price a - price b else price b - price a) result)"

text \<open>\<^verbatim>\<open>const cheapestPrice = filtered[0]?.price;\<close> (\<open>None\<close>: undefined)\<close>

definition cheapestPrice :: "screen \<Rightarrow> rat option" where
  "cheapestPrice s = (case filtered s of [] \<Rightarrow> None | p # _ \<Rightarrow> Some (price p))"

section \<open>Example inputs\<close>

text \<open>Two listings of one product, a reply of the search service and a rate-limited one.\<close>

definition leche_coto :: Price where
  "leche_coto =
     \<lparr>store = ''Coto'', product_name = ''Leche Entera 1L'', brand = ''La Serenisima'',
      price = 1500, url = ''https://coto.example/leche-entera'', promo_text = None\<rparr>"

definition leche_dia :: Price where
  "leche_dia =
     \<lparr>store = ''Dia'', product_name = ''Leche Descremada 1L'', brand = ''Ilolay'',
      price = 1650, url = ''https://dia.example/leche-descremada'', promo_text = Some ''2x1''\<rparr>"

definition reply :: "string \<Rightarrow> Price list option \<Rightarrow> fetch_result" where
  "reply st rs = Inr \<lparr>http_status = 200, json = Inr \<lparr>status = st, message = None, results = rs\<rparr>\<rparr>"

definition reply_429 :: fetch_result where
  "reply_429 = Inr \<lparr>http_status = 429, json = Inl ''Unexpected token T in JSON at position 0''\<rparr>"

definition terms21 :: "string list" where
  "terms21 =
     [''arroz'', ''Leche'', ''pan'', ''yerba'', ''azucar'', ''cafe'', ''te'', ''fideos'',
      ''aceite'', ''harina'', ''sal'', ''queso'', ''manteca'', ''huevos'', ''tomate'',
      ''papa'', ''cebolla'', ''pollo'', ''carne'', ''vino'', '' Galletitas '']"

section \<open>Deduplication: proofs\<close>

lemma findIndex_from_first:
  "\<forall>y\<in>set pre. \<not> P y \<Longrightarrow> P x \<Longrightarrow> findIndex_from n P (pre @ x # xs) = int (n + length pre)"
  by (induction pre arbitrary: n) auto

lemma findIndex_from_earlier:
  "\<exists>y\<in>set pre. P y \<Longrightarrow> findIndex_from n P (pre @ ys) < int (n + length pre)"
proof (induction pre arbitrary: n)
  case Nil
  then show ?case by simp
next
  case (Cons a pre)
  show ?case
  proof (cases "P a")
    case True
    then show ?thesis by simp
  next
    case False
    with Cons.prems have "\<exists>y\<in>set pre. P y" by simp
    from Cons.IH [OF this, of "Suc n"] False show ?thesis by simp
  qed
qed

lemma dedupe_spec_seen_set:
  "set seen = set seen' \<Longrightarrow> dedupe_spec seen ps = dedupe_spec seen' ps"
proof (induction ps arbitrary: seen seen')
  case Nil
  show ?case by simp
next
  case (Cons p ps)
  have "dedupe_spec (url p # seen) ps = dedupe_spec (url p # seen') ps"
    by (rule Cons.IH) (simp add: Cons.prems)
  moreover have "dedupe_spec seen ps = dedupe_spec seen' ps"
    by (rule Cons.IH) (rule Cons.prems)
  ultimately show ?case using Cons.prems by simp
qed

lemma uniqueResults_suffix:
  "map snd (filter (\<lambda>(index, item). int index = findIndex (\<lambda>t. url t = url item) (pre @ suf))
      (enumerate (length pre) suf))
   = dedupe_spec (map url pre) suf"
proof (induction suf arbitrary: pre)
  case Nil
  show ?case by simp
next
  case (Cons x xs)
  have tail: "map snd (filter (\<lambda>(index, item).
        int index = findIndex (\<lambda>t. url t = url item) (pre @ x # xs))
        (enumerate (Suc (length pre)) xs))
      = dedupe_spec (map url (pre @ [x])) xs"
    using Cons.IH [of "pre @ [x]"] by simp
  show ?case
  proof (cases "url x \<in> set (map url pre)")
    case True
    then have "\<exists>y\<in>set pre. url y = url x" by auto
    from findIndex_from_earlier [OF this, of 0 "x # xs"]
    have "findIndex (\<lambda>t. url t = url x) (pre @ x # xs) \<noteq> int (length pre)"
      by (simp add: findIndex_def)
    moreover have "dedupe_spec (map url (pre @ [x])) xs = dedupe_spec (map url pre) xs"
      by (rule dedupe_spec_seen_set) (use True in auto)
    ultimately show ?thesis using True tail by simp
  next
    case False
    then have "\<forall>y\<in>set pre. \<not> url y = url x" by (auto simp: image_iff)
    from findIndex_from_first [OF this, of x 0 xs]
    have "findIndex (\<lambda>t. url t = url x) (pre @ x # xs) = int (length pre)"
      by (simp add: findIndex_def)
    moreover have "dedupe_spec (map url (pre @ [x])) xs = dedupe_spec (url x # map url pre) xs"
      by (rule dedupe_spec_seen_set) auto
    ultimately show ?thesis using False tail by simp
  qed
qed

lemma uniqueResults_eq_spec: "uniqueResults R = dedupe_spec [] R"
  using uniqueResults_suffix [of "[]" R] by (simp add: uniqueResults_def filter_indexed_def)

lemma dedupe_spec_urls:
  "set (map url (dedupe_spec seen ps)) = set (map url ps) - set seen"
  by (induction ps arbitrary: seen) auto

lemma dedupe_spec_distinct: "distinct (map url (dedupe_spec seen ps))"
  by (induction ps arbitrary: seen) (auto simp: dedupe_spec_urls simp del: set_map)

lemma dedupe_spec_subseq: "subseq (dedupe_spec seen ps) ps"
  by (induction ps arbitrary: seen) auto

lemma dedupe_spec_find:
  "find (\<lambda>p. url p = u) (dedupe_spec seen ps)
   = (if u \<in> set seen then None else find (\<lambda>p. url p = u) ps)"
  by (induction ps arbitrary: seen) auto

text \<open>
  C6. For every raw result list \<open>R\<close>, the deduplicated list has no two elements with
  the same url, is a subsequence of \<open>R\<close> (the kept elements stand in their original
  relative order), and for every url the element it keeps is the first element of \<open>R\<close>
  with that url (none when \<open>R\<close> has none); it is the list the specification's
  keep-the-first-occurrence procedure computes.
\<close>

theorem uniqueResults_first_occurrences:
  "distinct (map url (uniqueResults R))
   \<and> subseq (uniqueResults R) R
   \<and> (\<forall>u. find (\<lambda>p. url p = u) (uniqueResults R) = find (\<lambda>p. url p = u) R)
   \<and> uniqueResults R = dedupe_spec [] R"
  by (simp add: uniqueResults_eq_spec dedupe_spec_distinct dedupe_spec_subseq dedupe_spec_find)

theorem uniqueResults_first_occurrences_example:
  "uniqueResults [leche_coto, leche_dia, leche_coto\<lparr>price := 1400\<rparr>, leche_dia]
   = [leche_coto, leche_dia]"
  using uniqueResults_first_occurrences
    [of "[leche_coto, leche_dia, leche_coto\<lparr>price := 1400\<rparr>, leche_dia]"]
  by (simp add: leche_coto_def leche_dia_def)

section \<open>Strings: proofs\<close>

lemma includes_str_sublist: "includes_str s t = sublist t s"
  by (induction s) (auto simp: sublist_Cons_right)

lemma toLowerCase_Nil_iff: "toLowerCase x = [] \<longleftrightarrow> x = []"
  by (simp add: toLowerCase_def)

text \<open>A string trims to the empty string exactly when it is empty or white space only.\<close>

lemma trim_Nil_iff: "trim t = [] \<longleftrightarrow> (\<forall>c\<in>set t. isSpace c)"
proof
  assume "trim t = []"
  then have all: "\<forall>c\<in>set (dropWhile isSpace t). isSpace c"
    by (simp add: trim_def)
  have "dropWhile isSpace t = []"
  proof (cases "dropWhile isSpace t")
    case Nil
    then show ?thesis .
  next
    case (Cons c cs)
    then have "\<not> isSpace c" by (metis hd_dropWhile list.sel(1) list.distinct(1))
    with all Cons show ?thesis by simp
  qed
  then show "\<forall>c\<in>set t. isSpace c" by simp
next
  assume "\<forall>c\<in>set t. isSpace c"
  then have "dropWhile isSpace t = []" by simp
  then show "trim t = []" by (simp only: trim_def rev.simps dropWhile.simps)
qed

section \<open>Sorting: proofs\<close>

lemma set_insert_sorted: "set (insert_sorted cmp x ys) = insert x (set ys)"
  by (induction ys) auto

lemma set_sort_js: "set (sort_js cmp xs) = set xs"
  by (induction xs) (simp_all add: sort_js_def set_insert_sorted)

lemma ascending_insert_sorted:
  "sorted_wrt (\<lambda>a b. price a \<le> price b) ys \<Longrightarrow>
   sorted_wrt (\<lambda>a b. price a \<le> price b) (insert_sorted (\<lambda>a b. price a - price b) x ys)"
  by (induction ys) (auto simp: set_insert_sorted)

lemma ascending_sort_js:
  "sorted_wrt (\<lambda>a b. price a \<le> price b) (sort_js (\<lambda>a b. price a - price b) xs)"
  by (induction xs) (simp_all add: sort_js_def ascending_insert_sorted)

lemma descending_insert_sorted:
  "sorted_wrt (\<lambda>a b. price b \<le> price a) ys \<Longrightarrow>
   sorted_wrt (\<lambda>a b. price b \<le> price a) (insert_sorted (\<lambda>a b. price b - price a) x ys)"
  by (induction ys) (auto simp: set_insert_sorted)

lemma descending_sort_js:
  "sorted_wrt (\<lambda>a b. price b \<le> price a) (sort_js (\<lambda>a b. price b - price a) xs)"
  by (induction xs) (simp_all add: sort_js_def descending_insert_sorted)

section \<open>Filters\<close>

text \<open>
  C5. For every result set and every selection of brands, stores and item prefixes, an
  item is in the filtered output iff it is in the result set and satisfies the three
  predicates together: no brand is selected or its brand is selected; no store is
  selected or its store is selected; no item prefix is selected or some selected
  prefix, lower-cased, occurs in its lower-cased product name. Sorting keeps the
  members.
\<close>

theorem filtered_iff:
  "p \<in> set (filtered s) \<longleftrightarrow>
     p \<in> set (data s)
     \<and> (selectedBrands s = [] \<or> brand p \<in> set (selectedBrands s))
     \<and> (selectedStores s = [] \<or> store p \<in> set (selectedStores s))
     \<and> (selectedItems s = [] \<or>
          (\<exists>i\<in>set (selectedItems s). sublist (toLowerCase i) (toLowerCase (product_name p))))"
  by (simp add: filtered_def set_sort_js list_ex_iff includes_str_sublist)

theorem filtered_iff_example:
  "leche_dia \<in> set (filtered (initial_screen
      \<lparr>data := [leche_coto, leche_dia], selectedItems := [''DESCREMADA'']\<rparr>))
   \<and> leche_coto \<notin> set (filtered (initial_screen
      \<lparr>data := [leche_coto, leche_dia], selectedItems := [''DESCREMADA'']\<rparr>))
   \<and> leche_coto \<in> set (filtered (initial_screen
      \<lparr>data := [leche_coto, leche_dia], selectedStores := [''Coto'']\<rparr>))"
  using
    filtered_iff [of leche_dia "initial_screen
      \<lparr>data := [leche_coto, leche_dia], selectedItems := [''DESCREMADA'']\<rparr>"]
    filtered_iff [of leche_coto "initial_screen
      \<lparr>data := [leche_coto, leche_dia], selectedItems := [''DESCREMADA'']\<rparr>"]
    filtered_iff [of leche_coto "initial_screen
      \<lparr>data := [leche_coto, leche_dia], selectedStores := [''Coto'']\<rparr>"]
  by (simp add: initial_screen_def leche_coto_def leche_dia_def toLowerCase_def lowerChar_def
      sublist_code(3))

section \<open>Cheapest price\<close>

text \<open>
  The value is the price of the first element of the sorted list, and undefined when the
  list is empty. In ascending order that is the least price of the filtered results; in
  descending order it is the greatest.
\<close>

lemma cheapestPrice_first:
  "cheapestPrice s = (if filtered s = [] then None else Some (price (hd (filtered s))))"
  by (cases "filtered s") (simp_all add: cheapestPrice_def)

lemma cheapestPrice_ascending:
  assumes "sortAsc s"
  shows "cheapestPrice s =
    (if filtered s = [] then None else Some (Min (price ` set (filtered s))))"
proof (cases "filtered s")
  case Nil
  then show ?thesis by (simp add: cheapestPrice_def)
next
  case (Cons p ps)
  have "sorted_wrt (\<lambda>a b. price a \<le> price b) (filtered s)"
    using assms by (simp add: filtered_def ascending_sort_js)
  with Cons have "\<forall>q\<in>set ps. price p \<le> price q" by simp
  then have "Min (price ` set (p # ps)) = price p"
    by (intro Min_eqI) auto
  with Cons show ?thesis by (simp add: cheapestPrice_def)
qed

lemma cheapestPrice_descending:
  assumes "\<not> sortAsc s"
  shows "cheapestPrice s =
    (if filtered s = [] then None else Some (Max (price ` set (filtered s))))"
proof (cases "filtered s")
  case Nil
  then show ?thesis by (simp add: cheapestPrice_def)
next
  case (Cons p ps)
  have "sorted_wrt (\<lambda>a b. price b \<le> price a) (filtered s)"
    using assms by (simp add: filtered_def descending_sort_js)
  with Cons have "\<forall>q\<in>set ps. price q \<le> price p" by simp
  then have "Max (price ` set (p # ps)) = price p"
    by (intro Max_eqI) auto
  with Cons show ?thesis by (simp add: cheapestPrice_def)
qed

lemma filtered_descending_example:
  "filtered (initial_screen\<lparr>data := [leche_coto, leche_dia], sortAsc := False\<rparr>)
   = [leche_dia, leche_coto]"
  by (simp add: filtered_def sort_js_def initial_screen_def leche_coto_def leche_dia_def)

text \<open>
  C4. The claim: for every result set, filter selection and sort direction the cheapest
  price is the minimum price over the filtered results. With two listings at 1500 and
  1650, no filter and the price toggle on descending, the filtered list is the dearer
  listing first, and the derived cheapest price is 1650 while the minimum is 1500.
\<close>

theorem cheapestPrice_descending_not_minimum:
  "cheapestPrice (initial_screen\<lparr>data := [leche_coto, leche_dia], sortAsc := False\<rparr>) = Some 1650
   \<and> Min (price ` set (filtered (initial_screen\<lparr>data := [leche_coto, leche_dia], sortAsc := False\<rparr>)))
       = 1500"
  by (simp add: cheapestPrice_def filtered_descending_example) (simp add: leche_coto_def leche_dia_def)

section \<open>Search history: proofs\<close>

lemma searchHistory_saveToHistory:
  "searchHistory (saveToHistory t s) =
     (if trim t = [] then searchHistory s
      else take 20 (trim t # filter (\<lambda>h. toLowerCase h \<noteq> toLowerCase (trim t)) (searchHistory s)))"
  by (simp add: saveToHistory_def MAX_HISTORY_def Let_def)

lemma saveToHistory_blank: "trim t = [] \<Longrightarrow> saveToHistory t s = s"
  by (simp add: saveToHistory_def)

lemma length_searchHistory_saveToHistory:
  "trim t \<noteq> [] \<Longrightarrow> length (searchHistory (saveToHistory t s)) \<le> 20"
  by (simp add: searchHistory_saveToHistory)

text \<open>A write that does not reject persists the new history.\<close>

lemma saveToHistory_persists:
  "trim t \<noteq> [] \<Longrightarrow> \<not> setItem_rejects (storage s) \<Longrightarrow>
   search_history_doc (storage (saveToHistory t s)) = Some (searchHistory (saveToHistory t s))"
  by (simp add: saveToHistory_def setItem_search_history_def Let_def)

text \<open>
  Accented capitals fold, and the no-break space is trimmed: on a history that holds
  \<open>CAFE\<close> with E acute (\<open>0xC9\<close>), recording \<open>cafe\<close> with e acute (\<open>0xE9\<close>) between
  no-break spaces puts the trimmed term in front and removes the old entry.
\<close>

lemma saveToHistory_accented_example:
  "searchHistory (saveToHistory (CHR 0xA0 # ''caf'' @ [CHR 0xE9, CHR 0xA0])
     (initial_screen\<lparr>searchHistory := [''CAF'' @ [CHR 0xC9], ''pan'']\<rparr>))
   = [''caf'' @ [CHR 0xE9], ''pan'']"
  by (simp add: saveToHistory_def MAX_HISTORY_def Let_def trim_def isSpace_def toLowerCase_def
      lowerChar_def)

lemma saveToHistory_twice:
  assumes "trim t \<noteq> []" and "toLowerCase (trim t') = toLowerCase (trim t)"
  shows "\<exists>rest. searchHistory (saveToHistory t' (saveToHistory t s)) = trim t' # rest
           \<and> (\<forall>h\<in>set rest. toLowerCase h \<noteq> toLowerCase (trim t))"
proof -
  from assms have t': "trim t' \<noteq> []"
    by (metis toLowerCase_Nil_iff)
  let ?P = "\<lambda>h. toLowerCase h \<noteq> toLowerCase (trim t)"
  let ?H1 = "searchHistory (saveToHistory t s)"
  have "searchHistory (saveToHistory t' (saveToHistory t s)) = trim t' # take 19 (filter ?P ?H1)"
    using t' assms(2) by (simp add: searchHistory_saveToHistory [of t' "saveToHistory t s"])
  moreover have "\<forall>h\<in>set (take 19 (filter ?P ?H1)). ?P h"
    by (auto dest: in_set_takeD)
  ultimately show ?thesis by blast
qed

text \<open>
  After recording terms that are pairwise different (trimmed, ignoring case), the
  history starts with them, newest first, as far as 20 entries reach.
\<close>

lemma saveToHistory_all_prefix:
  assumes "\<forall>t\<in>set ts. trim t \<noteq> []" and "distinct (map (\<lambda>t. toLowerCase (trim t)) ts)"
  shows "prefix (take 20 (rev (map trim ts)))
           (searchHistory (foldl (\<lambda>s t. saveToHistory t s) s ts))"
  using assms
proof (induction ts rule: rev_induct)
  case Nil
  show ?case by simp
next
  case (snoc t ts)
  let ?H = "searchHistory (foldl (\<lambda>s t. saveToHistory t s) s ts)"
  let ?A = "take 20 (rev (map trim ts))"
  let ?P = "\<lambda>h. toLowerCase h \<noteq> toLowerCase (trim t)"
  from snoc.prems have nonblank: "trim t \<noteq> []" by simp
  from snoc.prems have "prefix ?A ?H" by (intro snoc.IH) auto
  then obtain C where H: "?H = ?A @ C" by (auto simp: prefix_def)
  have "\<forall>h\<in>set ?A. ?P h"
  proof
    fix h assume "h \<in> set ?A"
    then have "h \<in> set (rev (map trim ts))" by (rule in_set_takeD)
    then obtain x where "x \<in> set ts" "h = trim x" by auto
    with snoc.prems(2) show "?P h" by (auto simp: image_iff)
  qed
  then have keep: "filter ?P ?A = ?A" by (simp add: filter_id_conv)
  have "searchHistory (foldl (\<lambda>s t. saveToHistory t s) s (ts @ [t]))
        = trim t # take 19 (filter ?P ?H)"
    using nonblank by (simp add: searchHistory_saveToHistory)
  also have "filter ?P ?H = ?A @ filter ?P C"
    using keep by (subst H) simp
  also have "take 19 (?A @ filter ?P C) = take 19 ?A @ take (19 - length ?A) (filter ?P C)"
    by simp
  finally have "searchHistory (foldl (\<lambda>s t. saveToHistory t s) s (ts @ [t]))
        = trim t # take 19 ?A @ take (19 - length ?A) (filter ?P C)" .
  moreover have "take 20 (rev (map trim (ts @ [t]))) = trim t # take 19 ?A"
    by (simp add: min_def)
  ultimately show ?case by simp
qed

lemma saveToHistory_all_recent:
  assumes "\<forall>t\<in>set ts. trim t \<noteq> []" and "distinct (map (\<lambda>t. toLowerCase (trim t)) ts)"
    and "20 \<le> length ts"
  shows "searchHistory (foldl (\<lambda>s t. saveToHistory t s) s ts) = map trim (take 20 (rev ts))"
proof -
  let ?H = "searchHistory (foldl (\<lambda>s t. saveToHistory t s) s ts)"
  from assms(3) obtain ts' t where ts: "ts = ts' @ [t]"
    by (cases ts rule: rev_cases) auto
  with assms(1) have "length ?H \<le> 20"
    by (simp add: length_searchHistory_saveToHistory)
  moreover have "prefix (take 20 (rev (map trim ts))) ?H"
    using assms(1,2) by (rule saveToHistory_all_prefix)
  moreover have "length (take 20 (rev (map trim ts))) = 20"
    using assms(3) by simp
  ultimately have "?H = take 20 (rev (map trim ts))"
    by (metis prefix_length_le le_antisym prefix_length_prefix prefix_order.order_refl
        prefix_order.antisym)
  then show ?thesis by (simp add: rev_map take_map)
qed

text \<open>
  C7. For every history state: recording a term stores the trimmed term in front of the
  entries that differ from it ignoring case, cut to 20 entries; a term that is empty or
  white space only changes nothing. Hence recording a term and then a term equal to it
  ignoring case leaves the second one at index 0 and no other entry equal to it
  ignoring case; and recording 20 or more terms (so also 21) that are non-blank and
  pairwise different ignoring case leaves exactly the 20 most recent, newest first.
\<close>

theorem saveToHistory_recency:
  "searchHistory (saveToHistory t s) =
     (if trim t = [] then searchHistory s
      else take 20 (trim t # filter (\<lambda>h. toLowerCase h \<noteq> toLowerCase (trim t)) (searchHistory s)))
   \<and> ((\<forall>c\<in>set t. isSpace c) \<longrightarrow> saveToHistory t s = s)
   \<and> (trim t \<noteq> [] \<longrightarrow> length (searchHistory (saveToHistory t s)) \<le> 20)
   \<and> (trim t \<noteq> [] \<and> toLowerCase (trim t') = toLowerCase (trim t) \<longrightarrow>
        (\<exists>rest. searchHistory (saveToHistory t' (saveToHistory t s)) = trim t' # rest
           \<and> (\<forall>h\<in>set rest. toLowerCase h \<noteq> toLowerCase (trim t))))
   \<and> ((\<forall>x\<in>set ts. trim x \<noteq> []) \<and> distinct (map (\<lambda>x. toLowerCase (trim x)) ts)
        \<and> 20 \<le> length ts \<longrightarrow>
        searchHistory (foldl (\<lambda>s x. saveToHistory x s) s ts) = map trim (take 20 (rev ts)))"
proof (intro conjI impI)
  show "searchHistory (saveToHistory t s) =
     (if trim t = [] then searchHistory s
      else take 20 (trim t # filter (\<lambda>h. toLowerCase h \<noteq> toLowerCase (trim t)) (searchHistory s)))"
    by (rule searchHistory_saveToHistory)
next
  assume "\<forall>c\<in>set t. isSpace c"
  then show "saveToHistory t s = s" by (simp add: saveToHistory_blank trim_Nil_iff)
next
  assume "trim t \<noteq> []"
  then show "length (searchHistory (saveToHistory t s)) \<le> 20"
    by (rule length_searchHistory_saveToHistory)
next
  assume "trim t \<noteq> [] \<and> toLowerCase (trim t') = toLowerCase (trim t)"
  then show "\<exists>rest. searchHistory (saveToHistory t' (saveToHistory t s)) = trim t' # rest
           \<and> (\<forall>h\<in>set rest. toLowerCase h \<noteq> toLowerCase (trim t))"
    by (simp add: saveToHistory_twice)
next
  assume "(\<forall>x\<in>set ts. trim x \<noteq> []) \<and> distinct (map (\<lambda>x. toLowerCase (trim x)) ts)
        \<and> 20 \<le> length ts"
  then show "searchHistory (foldl (\<lambda>s x. saveToHistory x s) s ts) = map trim (take 20 (rev ts))"
    by (simp add: saveToHistory_all_recent)
qed

theorem saveToHistory_recency_example:
  "saveToHistory ''   '' (initial_screen\<lparr>searchHistory := [''pan'', ''leche'']\<rparr>)
     = initial_screen\<lparr>searchHistory := [''pan'', ''leche'']\<rparr>
   \<and> searchHistory (saveToHistory ''LECHE'' (saveToHistory '' Leche ''
        (initial_screen\<lparr>searchHistory := [''pan'', ''leche'']\<rparr>))) = [''LECHE'', ''pan'']
   \<and> searchHistory (foldl (\<lambda>s x. saveToHistory x s)
        (initial_screen\<lparr>searchHistory := [''pan'', ''leche'']\<rparr>) terms21)
       = [''Galletitas'', ''vino'', ''carne'', ''pollo'', ''cebolla'', ''papa'', ''tomate'',
          ''huevos'', ''manteca'', ''queso'', ''sal'', ''harina'', ''aceite'', ''fideos'', ''te'',
          ''cafe'', ''azucar'', ''yerba'', ''pan'', ''Leche'']"
proof -
  let ?s0 = "initial_screen\<lparr>searchHistory := [''pan'', ''leche'']\<rparr>"
  have blank: "\<forall>c\<in>set ''   ''. isSpace c"
    by (simp add: isSpace_def)
  have many: "(\<forall>x\<in>set terms21. trim x \<noteq> [])
      \<and> distinct (map (\<lambda>x. toLowerCase (trim x)) terms21) \<and> 20 \<le> length terms21"
    by (simp add: terms21_def trim_def isSpace_def toLowerCase_def lowerChar_def)
  have 1: "saveToHistory ''   '' ?s0 = ?s0"
    using saveToHistory_recency [of "''   ''" ?s0] blank by blast
  have 2: "searchHistory (saveToHistory ''LECHE'' (saveToHistory '' Leche '' ?s0))
           = [''LECHE'', ''pan'']"
    using saveToHistory_recency [of "''LECHE''" "saveToHistory '' Leche '' ?s0"]
      saveToHistory_recency [of "'' Leche ''" ?s0]
    by (simp add: trim_def isSpace_def toLowerCase_def lowerChar_def)
  have 3: "searchHistory (foldl (\<lambda>s x. saveToHistory x s) ?s0 terms21)
           = map trim (take 20 (rev terms21))"
    using saveToHistory_recency [of _ ?s0 _ terms21] many by blast
  have 4: "map trim (take 20 (rev terms21))
           = [''Galletitas'', ''vino'', ''carne'', ''pollo'', ''cebolla'', ''papa'', ''tomate'',
              ''huevos'', ''manteca'', ''queso'', ''sal'', ''harina'', ''aceite'', ''fideos'',
              ''te'', ''cafe'', ''azucar'', ''yerba'', ''pan'', ''Leche'']"
    by (simp add: terms21_def trim_def isSpace_def)
  from 1 2 3 4 show ?thesis by simp
qed

section \<open>Cart: proofs\<close>

lemma find_url_None: "find (\<lambda>i. url i = u) xs = None \<longleftrightarrow> u \<notin> url ` set xs"
  by (auto simp: find_None_iff image_iff)

lemma cart_addToCart_present:
  "url L \<in> url ` set (cart s) \<Longrightarrow>
   cart (addToCart L s)
     = map (\<lambda>i. if url i = url L then i\<lparr>quantity := quantity i + 1\<rparr> else i) (cart s)"
  using find_url_None [of "url L" "cart s"]
  by (cases "find (\<lambda>i. url i = url L) (cart s)") (simp_all add: addToCart_def)

lemma cart_addToCart_absent:
  "url L \<notin> url ` set (cart s) \<Longrightarrow> cart (addToCart L s) = cart s @ [with_quantity L 1]"
  using find_url_None [of "url L" "cart s"] by (simp add: addToCart_def)

lemma url_with_quantity: "url (with_quantity L q) = url L"
  by (simp add: with_quantity_def)

lemma url_increment:
  "url (if url i = u then i\<lparr>quantity := quantity i + 1\<rparr> else i) = url i"
  by simp

lemma map_url_increment:
  "map (url \<circ> (\<lambda>i. if url i = u then i\<lparr>quantity := quantity i + 1\<rparr> else i)) xs = map url xs"
  by (simp add: o_def url_increment)

lemma addToCart_distinct:
  "distinct (map url (cart s)) \<Longrightarrow> distinct (map url (cart (addToCart L s)))"
proof (cases "url L \<in> url ` set (cart s)")
  case True
  assume "distinct (map url (cart s))"
  with True show ?thesis by (simp add: cart_addToCart_present map_url_increment)
next
  case False
  assume "distinct (map url (cart s))"
  with False show ?thesis by (simp add: cart_addToCart_absent url_with_quantity)
qed

lemma addToCart_twice:
  assumes "cart s = []"
  shows "cart (addToCart L (addToCart L s)) = [with_quantity L 2]"
    and "totalCartPrice (addToCart L (addToCart L s)) = price L * 2"
proof -
  have one: "cart (addToCart L s) = [with_quantity L 1]"
    using assms by (simp add: cart_addToCart_absent)
  then have "url L \<in> url ` set (cart (addToCart L s))"
    by (simp add: url_with_quantity)
  then show two: "cart (addToCart L (addToCart L s)) = [with_quantity L 2]"
    using one by (simp add: cart_addToCart_present) (simp add: with_quantity_def)
  show "totalCartPrice (addToCart L (addToCart L s)) = price L * 2"
    by (simp add: totalCartPrice_def two) (simp add: with_quantity_def)
qed

text \<open>
  C9. For every listing \<open>L\<close>: adding \<open>L\<close> twice to an empty cart gives a cart of exactly
  one item, \<open>L\<close> with quantity 2, and the total is the price of \<open>L\<close> times 2. In general
  adding \<open>L\<close> raises by one the quantity of the items with its url when the url is
  present, and appends \<open>L\<close> with quantity 1 otherwise; so urls that are unique in the
  cart stay unique.
\<close>

theorem addToCart_quantities:
  "(cart s = [] \<longrightarrow>
      cart (addToCart L (addToCart L s)) = [with_quantity L 2]
      \<and> totalCartPrice (addToCart L (addToCart L s)) = price L * 2)
   \<and> (url L \<in> url ` set (cart s) \<longrightarrow>
        cart (addToCart L s)
          = map (\<lambda>i. if url i = url L then i\<lparr>quantity := quantity i + 1\<rparr> else i) (cart s))
   \<and> (url L \<notin> url ` set (cart s) \<longrightarrow> cart (addToCart L s) = cart s @ [with_quantity L 1])
   \<and> (distinct (map url (cart s)) \<longrightarrow> distinct (map url (cart (addToCart L s))))"
  by (simp add: addToCart_twice cart_addToCart_present cart_addToCart_absent addToCart_distinct)

theorem addToCart_quantities_example:
  "cart initial_screen = []
   \<and> cart (addToCart leche_coto (addToCart leche_coto initial_screen)) = [with_quantity leche_coto 2]
   \<and> totalCartPrice (addToCart leche_coto (addToCart leche_coto initial_screen)) = 3000
   \<and> cart (addToCart leche_dia (addToCart leche_coto initial_screen))
       = [with_quantity leche_coto 1, with_quantity leche_dia 1]"
proof -
  have empty: "cart initial_screen = []"
    by (simp add: initial_screen_def)
  have one: "cart (addToCart leche_coto initial_screen) = [with_quantity leche_coto 1]"
    using addToCart_quantities [of initial_screen leche_coto] empty by simp
  have "url leche_dia \<notin> url ` set (cart (addToCart leche_coto initial_screen))"
    by (simp add: one url_with_quantity) (simp add: leche_coto_def leche_dia_def)
  with addToCart_quantities [of "addToCart leche_coto initial_screen" leche_dia] one
  have two: "cart (addToCart leche_dia (addToCart leche_coto initial_screen))
             = [with_quantity leche_coto 1, with_quantity leche_dia 1]"
    by simp
  from addToCart_quantities [of initial_screen leche_coto] empty two show ?thesis
    by (simp add: leche_coto_def)
qed

section \<open>Saved lists: proofs\<close>

text \<open>
  C8. For every cart state: saving a list whose name is empty or white space only
  shows the validation alert and changes nothing else; the store is as it was, with
  no call made on it.
\<close>

theorem saveListToDevice_blank_name:
  "(\<forall>c\<in>set (listName s). isSpace c) \<longrightarrow>
     saveListToDevice now today s
       = s\<lparr>alerts := alerts s @ [(''Error'', ''Ponle un nombre a tu lista'')]\<rparr>
     \<and> storage (saveListToDevice now today s) = storage s"
  by (simp add: saveListToDevice_def trim_Nil_iff)

theorem saveListToDevice_blank_name_example:
  "saveListToDevice ''1793692800000'' ''3/11/2026''
     (initial_screen\<lparr>listName := ''   '', cart := [with_quantity leche_coto 2]\<rparr>)
   = initial_screen\<lparr>listName := ''   '', cart := [with_quantity leche_coto 2],
       alerts := [(''Error'', ''Ponle un nombre a tu lista'')]\<rparr>
   \<and> storage (saveListToDevice ''1793692800000'' ''3/11/2026''
        (initial_screen\<lparr>listName := ''   '', cart := [with_quantity leche_coto 2]\<rparr>))
     = storage initial_screen"
proof -
  have blank: "\<forall>c\<in>set (listName (initial_screen
      \<lparr>listName := ''   '', cart := [with_quantity leche_coto 2]\<rparr>)). isSpace c"
    by (simp add: isSpace_def)
  from saveListToDevice_blank_name [of "initial_screen
      \<lparr>listName := ''   '', cart := [with_quantity leche_coto 2]\<rparr>" "''1793692800000''"
      "''3/11/2026''"] blank
  show ?thesis by (simp add: initial_screen_def)
qed

text \<open>
  C10. For every cart state with a non-blank list name: when both calls on the store go
  through, the save empties the cart and resets the list name (and the stored
  collection is the new list in front of the previous ones); when a call rejects, the
  cart and the list name are as before, the stored collection is unchanged, and the
  only changes are the alert "Error al guardar" and the call log of the store.
\<close>

theorem saveListToDevice_frame:
  "(trim (listName s) \<noteq> [] \<and> \<not> getItem_rejects (storage s) \<and> \<not> setItem_rejects (storage s) \<longrightarrow>
      cart (saveListToDevice now today s) = []
      \<and> listName (saveListToDevice now today s) = []
      \<and> my_lists_doc (storage (saveListToDevice now today s))
          = Some (\<lparr>id' = now, name = listName s, items = cart s, total = totalCartPrice s,
                   date = today\<rparr>
                  # (case my_lists_doc (storage s) of Some saved \<Rightarrow> saved | None \<Rightarrow> [])))
   \<and> (trim (listName s) \<noteq> [] \<and> (getItem_rejects (storage s) \<or> setItem_rejects (storage s)) \<longrightarrow>
      (\<exists>log. saveListToDevice now today s
          = s\<lparr>storage := (storage s)\<lparr>calls := log\<rparr>,
              alerts := alerts s @ [(''Error'', ''Error al guardar'')]\<rparr>)
      \<and> cart (saveListToDevice now today s) = cart s
      \<and> listName (saveListToDevice now today s) = listName s)"
  by (auto simp: saveListToDevice_def getItem_my_lists_def setItem_my_lists_def Let_def)

theorem saveListToDevice_frame_example:
  "cart (saveListToDevice ''1793692800000'' ''3/11/2026''
      (initial_screen\<lparr>listName := ''Compras'', cart := [with_quantity leche_coto 2]\<rparr>)) = []
   \<and> listName (saveListToDevice ''1793692800000'' ''3/11/2026''
      (initial_screen\<lparr>listName := ''Compras'', cart := [with_quantity leche_coto 2]\<rparr>)) = []
   \<and> my_lists_doc (storage (saveListToDevice ''1793692800000'' ''3/11/2026''
      (initial_screen\<lparr>listName := ''Compras'', cart := [with_quantity leche_coto 2]\<rparr>)))
     = Some [\<lparr>id' = ''1793692800000'', name = ''Compras'', items = [with_quantity leche_coto 2],
              total = 3000, date = ''3/11/2026''\<rparr>]
   \<and> cart (saveListToDevice ''1793692800000'' ''3/11/2026''
      (initial_screen\<lparr>listName := ''Compras'', cart := [with_quantity leche_coto 2],
         storage := (storage initial_screen)\<lparr>setItem_rejects := True\<rparr>\<rparr>))
     = [with_quantity leche_coto 2]
   \<and> listName (saveListToDevice ''1793692800000'' ''3/11/2026''
      (initial_screen\<lparr>listName := ''Compras'', cart := [with_quantity leche_coto 2],
         storage := (storage initial_screen)\<lparr>setItem_rejects := True\<rparr>\<rparr>))
     = ''Compras''"
proof -
  let ?s = "initial_screen\<lparr>listName := ''Compras'', cart := [with_quantity leche_coto 2]\<rparr>"
  let ?f = "initial_screen\<lparr>listName := ''Compras'', cart := [with_quantity leche_coto 2],
         storage := (storage initial_screen)\<lparr>setItem_rejects := True\<rparr>\<rparr>"
  have named: "trim ''Compras'' \<noteq> []"
    by (simp add: trim_def isSpace_def)
  have works: "\<not> getItem_rejects (storage ?s) \<and> \<not> setItem_rejects (storage ?s)"
    by (simp add: initial_screen_def)
  have fails: "getItem_rejects (storage ?f) \<or> setItem_rejects (storage ?f)"
    by simp
  have total: "totalCartPrice ?s = 3000"
    by (simp add: totalCartPrice_def with_quantity_def leche_coto_def)
  have none: "my_lists_doc (storage ?s) = None"
    by (simp add: initial_screen_def)
  from saveListToDevice_frame [of ?s "''1793692800000''" "''3/11/2026''"] named works total none
  have ok: "cart (saveListToDevice ''1793692800000'' ''3/11/2026'' ?s) = []
    \<and> listName (saveListToDevice ''1793692800000'' ''3/11/2026'' ?s) = []
    \<and> my_lists_doc (storage (saveListToDevice ''1793692800000'' ''3/11/2026'' ?s))
      = Some [\<lparr>id' = ''1793692800000'', name = ''Compras'', items = [with_quantity leche_coto 2],
               total = 3000, date = ''3/11/2026''\<rparr>]"
    by simp
  from saveListToDevice_frame [of ?f "''1793692800000''" "''3/11/2026''"] named fails
  have "cart (saveListToDevice ''1793692800000'' ''3/11/2026'' ?f) = [with_quantity leche_coto 2]
    \<and> listName (saveListToDevice ''1793692800000'' ''3/11/2026'' ?f) = ''Compras''"
    by simp
  with ok show ?thesis by simp
qed

section \<open>Search client: proofs\<close>

text \<open>
  A reply that is not successful fails with "Search failed"; a successful one gives its
  body. No reply passes the first check and has status 429, so the second check never
  fires.
\<close>

lemma searchProduct_not_ok:
  "\<not> ok res \<Longrightarrow> searchProduct (Inr res) q c p = Inl ''Search failed''"
  by (simp add: searchProduct_def)

lemma searchProduct_ok: "ok res \<Longrightarrow> searchProduct (Inr res) q c p = json res"
  by (auto simp: searchProduct_def ok_def)

lemma rate_limit_check_unreachable: "ok res \<Longrightarrow> http_status res \<noteq> 429"
  by (simp add: ok_def)

text \<open>
  C2. The claim: a reply that is not successful fails with the request failure, and a
  reply with status 429 signals the distinct rate-limited failure rather than the
  generic one. On every reply with status 429 the client fails with the generic
  "Search failed", not with "Rate limit exceeded. Try again later.": status 429 is
  not a successful status, and the check for it stands after the check for success.
\<close>

theorem searchProduct_429_generic_failure:
  "searchProduct (Inr (res\<lparr>http_status := 429\<rparr>)) q c p = Inl ''Search failed''
   \<and> searchProduct (Inr (res\<lparr>http_status := 429\<rparr>)) q c p
       \<noteq> Inl ''Rate limit exceeded. Try again later.''"
  by (simp add: searchProduct_def ok_def)

section \<open>Polling: proofs\<close>

text \<open>
  The branch of the poller for a rate limit: an error whose message contains
  "Too many requests" sets the busy message, leaves the error and the loading state as
  they are, and schedules the same request again in 10000 ms. Neither message of the
  client contains that text.
\<close>

lemma pollSearch_busy:
  "searchProduct answer q c p = Inl err \<Longrightarrow> includes_str err ''Too many requests'' \<Longrightarrow>
   pollSearch answer q c p s
     = (s\<lparr>statusMessage := Some ''Servidor ocupado, reintentando en breve...''\<rparr>,
        Some (10000, q, c, p))"
  by (simp add: pollSearch_def)

lemma pollSearch_error:
  "searchProduct answer q c p = Inl err \<Longrightarrow> \<not> includes_str err ''Too many requests'' \<Longrightarrow>
   err \<noteq> [] \<Longrightarrow> pollSearch answer q c p s = (s\<lparr>error := Some err, loading := False\<rparr>, None)"
  by (simp add: pollSearch_def)

lemma client_messages_not_busy:
  "\<not> includes_str ''Search failed'' ''Too many requests''"
  "\<not> includes_str ''Rate limit exceeded. Try again later.'' ''Too many requests''"
  by simp_all

lemma pollSearch_rate_limit_message_sets_error:
  "pollSearch (Inl ''Rate limit exceeded. Try again later.'') q c p s
     = (s\<lparr>error := Some ''Rate limit exceeded. Try again later.'', loading := False\<rparr>, None)"
  by (simp add: pollSearch_def searchProduct_def)

lemma pollSearch_COMPLETED:
  "pollSearch (reply ''COMPLETED'' (Some rs)) q c p s
   = (s\<lparr>data := uniqueResults rs, loading := False, statusMessage := None\<rparr>, None)"
  by (simp add: pollSearch_def searchProduct_def ok_def reply_def)

lemma pollSearch_PROCESSING:
  "pollSearch (reply ''PROCESSING'' rs) q c p s
   = (s\<lparr>statusMessage := Some ''Buscando mejores precios...''\<rparr>, Some (4000, q, c, p))"
  by (simp add: pollSearch_def searchProduct_def ok_def reply_def)

text \<open>
  Two runs of a whole search for "leche" on the mounted screen. Answered by PROCESSING
  and then by the completed job, it ends with the deduplicated results, loading off and
  no status message. Answered by a failure whose message the busy branch accepts (only
  \<open>fetch\<close> itself or \<open>res.json()\<close> can raise one) and then by the completed job,
  it ends the same way, with no error set.
\<close>

lemma search_processing_then_completed:
  "handleSearchWithTerm None (reply ''PROCESSING'' None)
     [reply ''COMPLETED'' (Some [leche_coto, leche_dia, leche_coto])]
     (initial_screen\<lparr>query := ''leche''\<rparr>)
   = (initial_screen\<lparr>query := ''leche'', searchHistory := [''leche''],
        storage := (storage initial_screen)
          \<lparr>search_history_doc := Some [''leche''], calls := [''setItem @search_history'']\<rparr>,
        data := [leche_coto, leche_dia], statusMessage := None, error := None,
        loading := False, hasSearched := True\<rparr>, None)"
  by (simp add: handleSearchWithTerm_def pollSearch_def searchProduct_def ok_def
      reply_def saveToHistory_def setItem_search_history_def MAX_HISTORY_def trim_def isSpace_def
      initial_screen_def Let_def uniqueResults_eq_spec leche_coto_def leche_dia_def)

lemma search_busy_then_completed:
  "handleSearchWithTerm None (Inl ''Too many requests'')
     [reply ''COMPLETED'' (Some [leche_coto, leche_dia])]
     (initial_screen\<lparr>query := ''leche''\<rparr>)
   = (initial_screen\<lparr>query := ''leche'', searchHistory := [''leche''],
        storage := (storage initial_screen)
          \<lparr>search_history_doc := Some [''leche''], calls := [''setItem @search_history'']\<rparr>,
        data := [leche_coto, leche_dia], statusMessage := None, error := None,
        loading := False, hasSearched := True\<rparr>, None)"
  by (simp add: handleSearchWithTerm_def pollSearch_def searchProduct_def ok_def
      reply_def saveToHistory_def setItem_search_history_def MAX_HISTORY_def trim_def isSpace_def
      initial_screen_def Let_def uniqueResults_eq_spec leche_coto_def leche_dia_def)

text \<open>
  A search for "leche" on the mounted screen, answered by a 429 and, had there been a
  retry, by the completed job: the error is set, loading has ended, no retry is pending
  and the results never arrive.
\<close>

lemma search_429_then_completed:
  "handleSearchWithTerm None reply_429 [reply ''COMPLETED'' (Some [leche_coto, leche_dia])]
     (initial_screen\<lparr>query := ''leche''\<rparr>)
   = (initial_screen\<lparr>query := ''leche'', searchHistory := [''leche''],
        storage := (storage initial_screen)
          \<lparr>search_history_doc := Some [''leche''], calls := [''setItem @search_history'']\<rparr>,
        statusMessage := Some ''Buscando en MAR_DEL_PLATA...'',
        error := Some ''Search failed'', loading := False, hasSearched := True\<rparr>, None)"
  by (simp add: handleSearchWithTerm_def pollSearch_def searchProduct_def ok_def reply_429_def
      reply_def saveToHistory_def setItem_search_history_def MAX_HISTORY_def trim_def isSpace_def
      initial_screen_def Let_def)

text \<open>
  C1. The claim: when a poll attempt fails with the rate-limited failure, the poller
  sets no error, shows the busy message, keeps loading and retries after 10 time units.
  On every reply with status 429, in every state, the attempt sets the error to
  "Search failed", ends loading, leaves the status message as it was and schedules no
  retry.
\<close>

theorem pollSearch_429_sets_error:
  "pollSearch (Inr (res\<lparr>http_status := 429\<rparr>)) q c p s
     = (s\<lparr>error := Some ''Search failed'', loading := False\<rparr>, None)"
  by (simp add: pollSearch_def searchProduct_def ok_def)

text \<open>
  The earlier variant of the poller ends an empty search: it clears the results and
  ends loading.
\<close>

lemma pollSearch_earlier_EMPTY:
  "pollSearch_earlier (reply ''EMPTY'' rs) q s = (s\<lparr>data := [], loading := False\<rparr>, None)"
  by (simp add: pollSearch_earlier_def searchProduct_def ok_def reply_def)

text \<open>
  A search for "leche" on the mounted screen that the service answers with EMPTY:
  loading stays on and nothing is pending that would end it.
\<close>

lemma search_EMPTY_keeps_loading:
  "loading (fst (handleSearchWithTerm None (reply ''EMPTY'' None) later
      (initial_screen\<lparr>query := ''leche''\<rparr>)))
   \<and> snd (handleSearchWithTerm None (reply ''EMPTY'' None) later
      (initial_screen\<lparr>query := ''leche''\<rparr>)) = None"
  by (cases later) (simp_all add: handleSearchWithTerm_def pollSearch_def searchProduct_def ok_def
      reply_def saveToHistory_def setItem_search_history_def MAX_HISTORY_def trim_def isSpace_def
      initial_screen_def Let_def)

text \<open>
  C3. The claim: when the client returns a response with status EMPTY, the poller
  clears the result set and ends the loading state. On a successful reply with status
  EMPTY the poller of the screen changes nothing and schedules nothing: no branch
  handles the status, so a screen that is loading stays loading.
\<close>

theorem pollSearch_EMPTY_unhandled:
  "pollSearch (reply ''EMPTY'' rs) q c p s = (s, None)
   \<and> loading (fst (pollSearch (reply ''EMPTY'' rs) q c p (s\<lparr>loading := True\<rparr>)))"
  by (simp add: pollSearch_def searchProduct_def ok_def reply_def)

end
